theory Spec2Isabelle
  imports Main "HOL-Library.Word"
begin

unbundle bit_operations_syntax

section \<open>Embedded SPIR-V kernels: EmbeddedKernels.cpp\<close>

text \<open>
  A shallow embedding of \<^verbatim>\<open>iree/compiler/Translation/SPIRV/EmbeddedKernels.cpp\<close>.
  Every C++ function of the file is a HOL function of the same name. What the C++ mutates
  through a pointer (\<^verbatim>\<open>out_def\<close>, the descriptor set layout, the specialization info,
  the diagnostics attached to the executable op) is passed in and returned.
  A call whose behaviour C++ leaves undefined, or that stops in an assertion of the
  MLIR type accessors, is the value \<open>Inl f\<close> for a \<open>fault\<close> \<open>f\<close>; a call that returns is
  \<open>Inr\<close> of what it returns.
\<close>

subsection \<open>Faults\<close>

datatype fault =
    MemcpyOutOfBounds    \<comment> \<open>\<^verbatim>\<open>std::memcpy\<close> past the end of the vector or of the embedded data\<close>
  | ShapeNotRanked       \<comment> \<open>\<^verbatim>\<open>getRank\<close>/\<^verbatim>\<open>getDimSize\<close> on an unranked tensor type\<close>
  | DimIndexOutOfRange   \<comment> \<open>\<^verbatim>\<open>getDimSize(i)\<close> with \<open>i\<close> not below the rank\<close>

subsection \<open>The kernel table\<close>

text \<open>
  Modelled from the spec: \<^verbatim>\<open>Kernels.h\<close> is generated at build time and is not part of
  the file. It declares the entry type of the table, with the fields \<^verbatim>\<open>name\<close>,
  \<^verbatim>\<open>data\<close> and \<^verbatim>\<open>size\<close> that \<^verbatim>\<open>readEmbeddedKernelCode\<close> reads, and the two accessors
  \<^verbatim>\<open>Kernels_create()\<close> (the table) and \<^verbatim>\<open>Kernels_size()\<close> (its entry count). The table
  is a parameter \<open>fileToc\<close> of the functions below, a list of entries whose length is
  \<^verbatim>\<open>Kernels_size()\<close>.
\<close>

record FileToc =
  name :: string
  data :: "8 word list"
  size_bytes :: nat      \<comment> \<open>the field \<^verbatim>\<open>size\<close>\<close>

text \<open>
  \<^verbatim>\<open>std::strcmp\<close> on two C strings. A C string ends at its first NUL character; the end of
  the list stands for the terminating NUL of a string that has none before. The result
  is the difference of the first pair of characters that differ, 0 when there is none.
\<close>

fun strcmp :: "string \<Rightarrow> string \<Rightarrow> int" where
  "strcmp [] [] = 0"
| "strcmp [] (b # bs) = 0 - int (of_char b)"
| "strcmp (a # as) [] = int (of_char a)"
| "strcmp (a # as) (b # bs) =
     (if a \<noteq> b then int (of_char a) - int (of_char b)
      else if a = CHR 0x00 then 0
      else strcmp as bs)"

text \<open>
  Four bytes of memory read as one \<^verbatim>\<open>uint32_t\<close>, on a little-endian host; this is what
  \<^verbatim>\<open>std::memcpy\<close> into the storage of a \<^verbatim>\<open>std::vector<uint32_t>\<close> does to each
  group of four bytes.
\<close>

definition word_of_bytes :: "8 word \<Rightarrow> 8 word \<Rightarrow> 8 word \<Rightarrow> 8 word \<Rightarrow> 32 word" where
  "word_of_bytes b0 b1 b2 b3 =
     ucast b0 OR push_bit 8 (ucast b1) OR push_bit 16 (ucast b2) OR push_bit 24 (ucast b3)"

fun memcpy_words :: "8 word list \<Rightarrow> 32 word list" where
  "memcpy_words (b0 # b1 # b2 # b3 # bs) = word_of_bytes b0 b1 b2 b3 # memcpy_words bs"
| "memcpy_words bs = []"

text \<open>
  The body of the \<^verbatim>\<open>if\<close> in \<^verbatim>\<open>readEmbeddedKernelCode\<close>: \<^verbatim>\<open>code.resize(size / 4)\<close>
  gives a vector of \<open>size div 4\<close> words, and \<^verbatim>\<open>std::memcpy(code.data(), data, size)\<close>
  copies \<open>size\<close> bytes into it. The copy stays inside the vector only when \<open>size\<close> is a
  multiple of 4, and inside the embedded data only when the entry has \<open>size\<close> bytes.
\<close>

definition copy_code :: "FileToc \<Rightarrow> fault + 32 word list" where
  "copy_code e =
     (if size_bytes e mod 4 \<noteq> 0 \<or> length (data e) < size_bytes e
      then Inl MemcpyOutOfBounds
      else Inr (memcpy_words (take (size_bytes e) (data e))))"

text \<open>The loop of \<^verbatim>\<open>readEmbeddedKernelCode\<close> over the table, first entry first.\<close>

fun readEmbeddedKernelCode :: "FileToc list \<Rightarrow> string \<Rightarrow> fault + 32 word list" where
  "readEmbeddedKernelCode [] kernelName = Inr []"
| "readEmbeddedKernelCode (e # fileToc) kernelName =
     (if strcmp (name e) kernelName = 0 then copy_code e
      else readEmbeddedKernelCode fileToc kernelName)"

subsection \<open>The executable definition\<close>

text \<open>
  Modelled from the spec: the flatbuffers object types \<^verbatim>\<open>iree::SpirVExecutableDefT\<close>,
  \<^verbatim>\<open>iree::VkPipelineLayoutDefT\<close>, \<^verbatim>\<open>iree::VkDescriptorSetLayoutDefT\<close>,
  \<^verbatim>\<open>iree::VkDescriptorSetLayoutBindingDefT\<close>, \<^verbatim>\<open>iree::VkSpecializationInfoDefT\<close> and
  \<^verbatim>\<open>iree::VkSpecializationMapEntryDefT\<close> are generated from a schema that is not part of
  the file. The records have the fields of the output record layout of the
  specification, which are the fields the file writes. A \<^verbatim>\<open>std::unique_ptr\<close> field is an
  \<open>option\<close> (\<open>None\<close> is the null pointer), a vector of owned objects is a list, and a
  freshly made object has zeros and empty vectors.
\<close>

record VkDescriptorSetLayoutBindingDefT =
  binding :: "32 word"
  descriptor_count :: "32 word"
  descriptor_type :: "32 word"
  stage_flags :: "32 word"

record VkDescriptorSetLayoutDefT =
  bindings :: "VkDescriptorSetLayoutBindingDefT list"

record VkPipelineLayoutDefT =
  buffer_binding_set :: "32 word"
  descriptor_set_layouts :: "VkDescriptorSetLayoutDefT list"

record VkSpecializationMapEntryDefT =
  constant_id :: "32 word"
  uint32_value :: "32 word"

record VkSpecializationInfoDefT =
  map_entries :: "VkSpecializationMapEntryDefT list"

record SpirVExecutableDefT =
  tag :: string
  entry_points :: "string list"
  code :: "32 word list"
  pipeline_layout :: "VkPipelineLayoutDefT option"
  specialization_info :: "VkSpecializationInfoDefT option"

definition addDescriptorSetLayoutBinding ::
  "32 word \<Rightarrow> VkDescriptorSetLayoutDefT \<Rightarrow> VkDescriptorSetLayoutDefT" where
  "addDescriptorSetLayoutBinding b dsl =
     (let bindingDef = \<lparr>binding = b, descriptor_count = 1, descriptor_type = 7,
                         stage_flags = 0x00000020\<rparr>
      in dsl\<lparr>bindings := bindings dsl @ [bindingDef]\<rparr>)"

definition addSpecializationMapEntry ::
  "32 word \<Rightarrow> 32 word \<Rightarrow> VkSpecializationInfoDefT \<Rightarrow> VkSpecializationInfoDefT" where
  "addSpecializationMapEntry cid v specializationInfoDef =
     (let specValue = \<lparr>constant_id = cid, uint32_value = v\<rparr>
      in specializationInfoDef\<lparr>map_entries := map_entries specializationInfoDef @ [specValue]\<rparr>)"

subsection \<open>Operand types\<close>

text \<open>
  The type of an operand of \<^verbatim>\<open>xla_hlo.dot\<close> is a tensor type, so the cast to
  \<^verbatim>\<open>ShapedType\<close> always succeeds. A ranked type has a shape, a list of \<^verbatim>\<open>int64_t\<close>
  extents in which \<open>-1\<close> marks a dynamic dimension; an unranked tensor has none, and
  \<^verbatim>\<open>getRank\<close> and \<^verbatim>\<open>getDimSize\<close> stop in an assertion on it, as \<^verbatim>\<open>getDimSize\<close> does
  on an index that is not below the rank.
\<close>

datatype ShapedType = Ranked "64 word list" | Unranked

fun getRank :: "ShapedType \<Rightarrow> fault + nat" where
  "getRank (Ranked shape) = Inr (length shape)"
| "getRank Unranked = Inl ShapeNotRanked"

fun getDimSize :: "ShapedType \<Rightarrow> nat \<Rightarrow> fault + 64 word" where
  "getDimSize (Ranked shape) i =
     (if i < length shape then Inr (shape ! i) else Inl DimIndexOutOfRange)"
| "getDimSize Unranked i = Inl ShapeNotRanked"

text \<open>
  The expression \<^verbatim>\<open>t.getRank() == 3 ? t.getDimSize(i3) : t.getDimSize(i2)\<close> assigned to a
  \<^verbatim>\<open>uint32_t\<close>, which \<^verbatim>\<open>buildMatMulExecutable\<close> evaluates three times: the \<^verbatim>\<open>int64_t\<close>
  extent is converted to 32 bits, keeping its low 32 bits.
\<close>

definition dim_as_uint32 :: "ShapedType \<Rightarrow> nat \<Rightarrow> nat \<Rightarrow> fault + 32 word" where
  "dim_as_uint32 t i3 i2 =
     (case getRank t of
        Inl f \<Rightarrow> Inl f
      | Inr r \<Rightarrow>
          (case (if r = 3 then getDimSize t i3 else getDimSize t i2) of
             Inl f \<Rightarrow> Inl f
           | Inr d \<Rightarrow> Inr (ucast d)))"

subsection \<open>The matmul assembler\<close>

datatype LogicalResult = success | failure

definition failed :: "LogicalResult \<Rightarrow> bool" where
  "failed r = (r = failure)"

record DotOp =
  operand0 :: ShapedType
  operand1 :: ShapedType

text \<open>
  \<^verbatim>\<open>buildMatMulExecutable\<close>. Its parameters \<^verbatim>\<open>executableOp\<close> and \<^verbatim>\<open>entryFuncOp\<close> are
  not used by its body and are left out. The statements are in the order of the source.
\<close>

definition buildMatMulExecutable ::
  "FileToc list \<Rightarrow> DotOp \<Rightarrow> SpirVExecutableDefT \<Rightarrow> fault + (LogicalResult \<times> SpirVExecutableDefT)"
where
  "buildMatMulExecutable fileToc dotOp out_def =
     (let arg0 = operand0 dotOp;
          arg1 = operand1 dotOp;
          out1 = out_def\<lparr>tag := ''__matmul__'', entry_points := [''main'']\<rparr>
      in case readEmbeddedKernelCode fileToc ''matmul.spv'' of
           Inl f \<Rightarrow> Inl f
         | Inr c \<Rightarrow>
          (let out2 = out1\<lparr>code := c\<rparr>;
               pipelineLayoutDef = \<lparr>buffer_binding_set = 0, descriptor_set_layouts = []\<rparr>;
               dsl0 = \<lparr>bindings = []\<rparr>;
               dsl1 = addDescriptorSetLayoutBinding 0 dsl0;
               dsl2 = addDescriptorSetLayoutBinding 1 dsl1;
               dsl3 = addDescriptorSetLayoutBinding 2 dsl2;
               pipelineLayoutDef' = pipelineLayoutDef
                 \<lparr>descriptor_set_layouts := descriptor_set_layouts pipelineLayoutDef @ [dsl3]\<rparr>;
               out3 = out2\<lparr>pipeline_layout := Some pipelineLayoutDef'\<rparr>
           in case dim_as_uint32 arg0 1 0 of
                Inl f \<Rightarrow> Inl f
              | Inr m \<Rightarrow>
               (case dim_as_uint32 arg0 2 1 of
                  Inl f \<Rightarrow> Inl f
                | Inr k \<Rightarrow>
                 (case dim_as_uint32 arg1 2 1 of
                    Inl f \<Rightarrow> Inl f
                  | Inr n \<Rightarrow>
                   (let info0 = \<lparr>map_entries = []\<rparr>;
                        info1 = addSpecializationMapEntry 100 m info0;
                        info2 = addSpecializationMapEntry 101 k info1;
                        info3 = addSpecializationMapEntry 102 n info2;
                        out4 = out3\<lparr>specialization_info := Some info3\<rparr>
                    in Inr (success, out4))))))"

subsection \<open>The pattern matcher\<close>

text \<open>
  An operation is an \<^verbatim>\<open>xla_hlo.conv\<close>, an \<^verbatim>\<open>xla_hlo.dot\<close> with its two operand types, or
  anything else. A block is the list of its operations, a function the list of its
  blocks, and the inner module of the executable the list of its functions, each in
  program order; these are the three ranges the loops of \<^verbatim>\<open>tryEmbeddedKernelRewrite\<close>
  walk. \<^verbatim>\<open>executableOp.emitOpError() << msg\<close> appends \<open>OpError msg\<close> to the diagnostics
  of the executable.
\<close>

datatype Operation = ConvOp | DotOp DotOp | OtherOp

type_synonym Block = "Operation list"
type_synonym FuncOp = "Block list"
type_synonym ModuleOp = "FuncOp list"

datatype Diagnostic = OpError string

text \<open>
  What a call of \<^verbatim>\<open>tryEmbeddedKernelRewrite\<close> leaves behind: the value it returns, the
  record behind \<^verbatim>\<open>out_def\<close>, and the diagnostics of the executable.
\<close>

record Rewrite =
  returned :: bool
  def :: SpirVExecutableDefT
  diags :: "Diagnostic list"

text \<open>
  The innermost loop. \<open>Inr None\<close> says that the loop ran to its end without a
  \<^verbatim>\<open>return\<close>; no statement on that path writes anything.
\<close>

fun scan_ops ::
  "FileToc list \<Rightarrow> Block \<Rightarrow> SpirVExecutableDefT \<Rightarrow> Diagnostic list \<Rightarrow> fault + Rewrite option"
where
  "scan_ops fileToc [] out_def ds = Inr None"
| "scan_ops fileToc (ConvOp # ops) out_def ds =
     Inr (Some \<lparr>returned = False, def = out_def,
                 diags = ds @ [OpError ''Conv not yet implemented'']\<rparr>)"
| "scan_ops fileToc (DotOp dotOp # ops) out_def ds =
     (case buildMatMulExecutable fileToc dotOp out_def of
        Inl f \<Rightarrow> Inl f
      | Inr (r, out_def') \<Rightarrow>
          if failed r
          then Inr (Some \<lparr>returned = False, def = out_def',
                           diags = ds @ [OpError ''Failed to splat in the matmul kernel'']\<rparr>)
          else Inr (Some \<lparr>returned = True, def = out_def', diags = ds\<rparr>))"
| "scan_ops fileToc (OtherOp # ops) out_def ds = scan_ops fileToc ops out_def ds"

fun scan_blocks ::
  "FileToc list \<Rightarrow> FuncOp \<Rightarrow> SpirVExecutableDefT \<Rightarrow> Diagnostic list \<Rightarrow> fault + Rewrite option"
where
  "scan_blocks fileToc [] out_def ds = Inr None"
| "scan_blocks fileToc (block # blocks) out_def ds =
     (case scan_ops fileToc block out_def ds of
        Inr None \<Rightarrow> scan_blocks fileToc blocks out_def ds
      | r \<Rightarrow> r)"

fun scan_funcs ::
  "FileToc list \<Rightarrow> ModuleOp \<Rightarrow> SpirVExecutableDefT \<Rightarrow> Diagnostic list \<Rightarrow> fault + Rewrite option"
where
  "scan_funcs fileToc [] out_def ds = Inr None"
| "scan_funcs fileToc (funcOp # funcOps) out_def ds =
     (case scan_blocks fileToc funcOp out_def ds of
        Inr None \<Rightarrow> scan_funcs fileToc funcOps out_def ds
      | r \<Rightarrow> r)"

definition tryEmbeddedKernelRewrite ::
  "FileToc list \<Rightarrow> ModuleOp \<Rightarrow> SpirVExecutableDefT \<Rightarrow> Diagnostic list \<Rightarrow> fault + Rewrite"
where
  "tryEmbeddedKernelRewrite fileToc module out_def ds =
     (case scan_funcs fileToc module out_def ds of
        Inl f \<Rightarrow> Inl f
      | Inr (Some r) \<Rightarrow> Inr r
      | Inr None \<Rightarrow> Inr \<lparr>returned = False, def = out_def, diags = ds\<rparr>)"

subsection \<open>Notions used in the statements\<close>

text \<open>
  The four bytes that a \<^verbatim>\<open>uint32_t\<close> occupies in memory, lowest address first, on the
  little-endian host of \<open>word_of_bytes\<close>.
\<close>

definition bytes_of_word :: "32 word \<Rightarrow> 8 word list" where
  "bytes_of_word w = [ucast w, ucast (drop_bit 8 w), ucast (drop_bit 16 w), ucast (drop_bit 24 w)]"

text \<open>
  The copy of a table entry stays in bounds: its size is a multiple of 4 and the entry
  holds that many bytes. The generator of the table records the length of the data as
  the size, and a SPIR-V binary is a sequence of 4-byte words.
\<close>

definition entry_in_bounds :: "FileToc \<Rightarrow> bool" where
  "entry_in_bounds e = (size_bytes e mod 4 = 0 \<and> size_bytes e \<le> length (data e))"

text \<open>The string is the text of a C string: it has no NUL character inside.\<close>

definition c_string :: "string \<Rightarrow> bool" where
  "c_string s = (CHR 0x00 \<notin> set s)"

text \<open>A default-constructed \<^verbatim>\<open>SpirVExecutableDefT\<close>, as a caller passes it in.\<close>

definition empty_def :: SpirVExecutableDefT where
  "empty_def = \<lparr>tag = [], entry_points = [], code = [], pipeline_layout = None,
                 specialization_info = None\<rparr>"

text \<open>\<^verbatim>\<open>ShapedType::kDynamicSize\<close>, the extent of a dynamic dimension.\<close>

definition kDynamicSize :: "64 word" where
  "kDynamicSize = - 1"

text \<open>
  The accessors of \<^verbatim>\<open>buildMatMulExecutable\<close> return on this operand type: it is ranked
  and has at least two dimensions, so that the indices 1 and 2 exist at rank 3 and the
  indices 0 and 1 at any other rank.
\<close>

fun rank_ok :: "ShapedType \<Rightarrow> bool" where
  "rank_ok (Ranked shape) = (2 \<le> length shape)"
| "rank_ok Unranked = False"

text \<open>The operand type has a dynamic dimension.\<close>

fun has_dynamic_dim :: "ShapedType \<Rightarrow> bool" where
  "has_dynamic_dim (Ranked shape) = (kDynamicSize \<in> set shape)"
| "has_dynamic_dim Unranked = True"

text \<open>
  The definition that the matmul assembler leaves behind \<^verbatim>\<open>out_def\<close> when the lookup
  gave the words \<open>c\<close> and the three extents were read as \<open>m\<close>, \<open>k\<close> and \<open>n\<close>.
\<close>

definition storage_buffer_binding :: "32 word \<Rightarrow> VkDescriptorSetLayoutBindingDefT" where
  "storage_buffer_binding b =
     \<lparr>binding = b, descriptor_count = 1, descriptor_type = 7, stage_flags = 0x20\<rparr>"

definition matmul_def ::
  "SpirVExecutableDefT \<Rightarrow> 32 word list \<Rightarrow> 32 word \<Rightarrow> 32 word \<Rightarrow> 32 word \<Rightarrow> SpirVExecutableDefT"
where
  "matmul_def out_def c m k n =
     out_def\<lparr>tag := ''__matmul__'', entry_points := [''main''], code := c,
       pipeline_layout := Some \<lparr>buffer_binding_set = 0, descriptor_set_layouts =
         [\<lparr>bindings = [storage_buffer_binding 0, storage_buffer_binding 1,
                        storage_buffer_binding 2]\<rparr>]\<rparr>,
       specialization_info := Some \<lparr>map_entries =
         [\<lparr>constant_id = 100, uint32_value = m\<rparr>,
          \<lparr>constant_id = 101, uint32_value = k\<rparr>,
          \<lparr>constant_id = 102, uint32_value = n\<rparr>]\<rparr>\<rparr>"

text \<open>
  The specialization constants of a definition, read off as numbers: the list of the
  pairs of constant id and value, in the order of the map entries; \<open>None\<close> when the
  definition has no specialization info.
\<close>

definition spec_constants :: "SpirVExecutableDefT \<Rightarrow> (nat \<times> int) list option" where
  "spec_constants d =
     map_option (\<lambda>info. map (\<lambda>e. (unat (constant_id e), uint (uint32_value e))) (map_entries info))
       (specialization_info d)"

text \<open>The diagnostic of \<^verbatim>\<open>tryEmbeddedKernelRewrite\<close> for a convolution.\<close>

definition conv_diagnostic :: Diagnostic where
  "conv_diagnostic = OpError ''Conv not yet implemented''"

section \<open>The kernel repository\<close>

lemma of_char_pos: "c \<noteq> CHR 0x00 \<Longrightarrow> 0 < (of_char c :: nat)"
proof -
  assume "c \<noteq> CHR 0x00"
  then have "(of_char c :: nat) \<noteq> of_char (CHR 0x00)"
    by (simp only: of_char_eq_iff) simp
  then show ?thesis by simp
qed

lemma strcmp_eq_0_iff:
  "c_string a \<Longrightarrow> c_string b \<Longrightarrow> strcmp a b = 0 \<longleftrightarrow> a = b"
  unfolding c_string_def
  by (induction a b rule: strcmp.induct) (auto dest: of_char_pos [OF not_sym])

lemma length_memcpy_words: "length (memcpy_words bs) = length bs div 4"
  by (induction bs rule: memcpy_words.induct) auto

lemma bytes_of_word_of_bytes: "bytes_of_word (word_of_bytes b0 b1 b2 b3) = [b0, b1, b2, b3]"
  unfolding bytes_of_word_def word_of_bytes_def
  apply simp
  apply (intro conjI)
  apply (rule bit_word_eqI; auto simp add: bit_simps dest: bit_imp_le_length)+
  done

lemma bytes_of_memcpy_words:
  "length bs mod 4 = 0 \<Longrightarrow> concat (map bytes_of_word (memcpy_words bs)) = bs"
  by (induction bs rule: memcpy_words.induct) (auto simp: bytes_of_word_of_bytes)

lemma copy_code_in_bounds:
  assumes "entry_in_bounds e"
  shows "\<exists>ws. copy_code e = Inr ws \<and> length ws = size_bytes e div 4
           \<and> concat (map bytes_of_word ws) = take (size_bytes e) (data e)"
proof -
  let ?bs = "take (size_bytes e) (data e)"
  from assms have len: "length ?bs = size_bytes e" and m4: "size_bytes e mod 4 = 0"
    by (simp_all add: entry_in_bounds_def)
  from assms have "copy_code e = Inr (memcpy_words ?bs)"
    by (auto simp: copy_code_def entry_in_bounds_def)
  moreover have "length (memcpy_words ?bs) = size_bytes e div 4"
    using len by (simp only: length_memcpy_words)
  moreover have "concat (map bytes_of_word (memcpy_words ?bs)) = ?bs"
    using len m4 by (intro bytes_of_memcpy_words) simp
  ultimately show ?thesis by blast
qed

lemma readEmbeddedKernelCode_find:
  assumes "c_string kernelName" and "\<forall>e\<in>set fileToc. c_string (name e)"
  shows "readEmbeddedKernelCode fileToc kernelName =
           (case find (\<lambda>e. name e = kernelName) fileToc of
              None \<Rightarrow> Inr []
            | Some e \<Rightarrow> copy_code e)"
  using assms by (induction fileToc) (auto simp: strcmp_eq_0_iff)

lemma readEmbeddedKernelCode_returns:
  "\<forall>e\<in>set fileToc. entry_in_bounds e \<Longrightarrow> \<exists>c. readEmbeddedKernelCode fileToc kernelName = Inr c"
proof (induction fileToc)
  case Nil
  then show ?case by simp
next
  case (Cons e fileToc)
  then show ?case using copy_code_in_bounds [of e] by auto
qed

text \<open>
  C7. The lookup scans the table for an exact match of the name only. The names are C
  strings and every copy stays in bounds. If some entry has the queried name, the first
  such entry is the one taken: the result has \<open>size div 4\<close> words, and these words, as
  bytes in memory, are the first \<open>size\<close> bytes of that entry. If no entry has the queried
  name, the result is the empty vector, which is an ordinary return. The table is an
  argument that the function only reads.
\<close>

theorem readEmbeddedKernelCode_exact_match:
  assumes "c_string kernelName"
    and "\<forall>e\<in>set fileToc. c_string (name e)"
    and "\<forall>e\<in>set fileToc. entry_in_bounds e"
  shows "case find (\<lambda>e. name e = kernelName) fileToc of
           None \<Rightarrow> readEmbeddedKernelCode fileToc kernelName = Inr []
         | Some e \<Rightarrow>
             (\<exists>ws. readEmbeddedKernelCode fileToc kernelName = Inr ws
                \<and> length ws = size_bytes e div 4
                \<and> concat (map bytes_of_word ws) = take (size_bytes e) (data e))"
proof (cases "find (\<lambda>e. name e = kernelName) fileToc")
  case None
  then show ?thesis
    using readEmbeddedKernelCode_find [OF assms(1,2)] by simp
next
  case (Some e)
  then have "e \<in> set fileToc"
    by (auto simp: find_Some_iff)
  with assms(3) have "entry_in_bounds e" by blast
  from copy_code_in_bounds [OF this] Some show ?thesis
    using readEmbeddedKernelCode_find [OF assms(1,2)] by simp
qed

theorem readEmbeddedKernelCode_exact_match_witness:
  "c_string ''matmul.spv''
   \<and> c_string ''matmul.spv.bak''
   \<and> entry_in_bounds \<lparr>name = ''matmul.spv.bak'', data = [1, 2, 3, 4], size_bytes = 4\<rparr>
   \<and> entry_in_bounds \<lparr>name = ''matmul.spv'', data = [3, 2, 35, 7, 0, 0, 1, 0], size_bytes = 8\<rparr>
   \<and> (\<exists>ws. readEmbeddedKernelCode
              [\<lparr>name = ''matmul.spv.bak'', data = [1, 2, 3, 4], size_bytes = 4\<rparr>,
               \<lparr>name = ''matmul.spv'', data = [3, 2, 35, 7, 0, 0, 1, 0], size_bytes = 8\<rparr>]
              ''matmul.spv'' = Inr ws
          \<and> length ws = 2
          \<and> concat (map bytes_of_word ws) = [3, 2, 35, 7, 0, 0, 1, 0])"
  using readEmbeddedKernelCode_exact_match
    [of "''matmul.spv''"
        "[\<lparr>name = ''matmul.spv.bak'', data = [1, 2, 3, 4], size_bytes = 4\<rparr>,
          \<lparr>name = ''matmul.spv'', data = [3, 2, 35, 7, 0, 0, 1, 0], size_bytes = 8\<rparr>]"]
  by (simp add: c_string_def entry_in_bounds_def)

section \<open>The matmul assembler\<close>

subsection \<open>What the assembler computes\<close>

lemma uint_ucast_64_32: "uint (ucast (d :: 64 word) :: 32 word) = sint d mod 2 ^ 32"
proof -
  have "uint (ucast d :: 32 word) = take_bit 32 (uint d)"
    by (simp add: unsigned_ucast_eq)
  also have "\<dots> = take_bit 32 (sint d)"
    by (simp add: sint_uint take_bit_signed_take_bit)
  finally show ?thesis by (simp add: take_bit_eq_mod)
qed

lemma ucast_kDynamicSize: "(ucast kDynamicSize :: 32 word) = 4294967295"
proof -
  have "uint (ucast kDynamicSize :: 32 word) = uint (4294967295 :: 32 word)"
    by (simp add: uint_ucast_64_32 kDynamicSize_def)
  then show ?thesis by (simp only: word_uint_eq_iff)
qed

lemma buildMatMulExecutable_eq:
  "buildMatMulExecutable fileToc dotOp out_def =
     (case readEmbeddedKernelCode fileToc ''matmul.spv'' of
        Inl f \<Rightarrow> Inl f
      | Inr c \<Rightarrow>
     (case dim_as_uint32 (operand0 dotOp) 1 0 of
        Inl f \<Rightarrow> Inl f
      | Inr m \<Rightarrow>
     (case dim_as_uint32 (operand0 dotOp) 2 1 of
        Inl f \<Rightarrow> Inl f
      | Inr k \<Rightarrow>
     (case dim_as_uint32 (operand1 dotOp) 2 1 of
        Inl f \<Rightarrow> Inl f
      | Inr n \<Rightarrow> Inr (success, matmul_def out_def c m k n)))))"
  by (simp add: buildMatMulExecutable_def Let_def addDescriptorSetLayoutBinding_def
      addSpecializationMapEntry_def matmul_def_def storage_buffer_binding_def
      split: sum.splits)

lemma buildMatMulExecutable_InrE:
  assumes "buildMatMulExecutable fileToc dotOp out_def = Inr (r, out_def')"
  obtains c m k n where
    "readEmbeddedKernelCode fileToc ''matmul.spv'' = Inr c"
    "dim_as_uint32 (operand0 dotOp) 1 0 = Inr m"
    "dim_as_uint32 (operand0 dotOp) 2 1 = Inr k"
    "dim_as_uint32 (operand1 dotOp) 2 1 = Inr n"
    "r = success"
    "out_def' = matmul_def out_def c m k n"
  using assms unfolding buildMatMulExecutable_eq
  by (auto split: sum.splits)

lemma dim_as_uint32_Ranked:
  "dim_as_uint32 (Ranked s) i3 i2 =
     (if (if length s = 3 then i3 else i2) < length s
      then Inr (ucast (s ! (if length s = 3 then i3 else i2)))
      else Inl DimIndexOutOfRange)"
  by (simp add: dim_as_uint32_def)

lemma dim_as_uint32_Unranked: "dim_as_uint32 Unranked i3 i2 = Inl ShapeNotRanked"
  by (simp add: dim_as_uint32_def)

lemma dim_as_uint32_returns:
  assumes "rank_ok t" and "i3 \<le> 2" and "i2 \<le> 1"
  shows "\<exists>v. dim_as_uint32 t i3 i2 = Inr v"
proof (cases t)
  case (Ranked s)
  with assms show ?thesis by (auto simp: dim_as_uint32_Ranked)
next
  case Unranked
  with assms show ?thesis by simp
qed

lemma buildMatMulExecutable_returns:
  assumes "readEmbeddedKernelCode fileToc ''matmul.spv'' = Inr c"
    and "rank_ok (operand0 dotOp)" and "rank_ok (operand1 dotOp)"
  shows "\<exists>m k n. buildMatMulExecutable fileToc dotOp out_def = Inr (success, matmul_def out_def c m k n)"
proof -
  obtain m where m: "dim_as_uint32 (operand0 dotOp) 1 0 = Inr m"
    using dim_as_uint32_returns [OF assms(2), of 1 0] by auto
  obtain k where k: "dim_as_uint32 (operand0 dotOp) 2 1 = Inr k"
    using dim_as_uint32_returns [OF assms(2), of 2 1] by auto
  obtain n where n: "dim_as_uint32 (operand1 dotOp) 2 1 = Inr n"
    using dim_as_uint32_returns [OF assms(3), of 2 1] by auto
  show ?thesis
    unfolding buildMatMulExecutable_eq assms(1) m k n by auto
qed

lemma spec_constants_matmul_def:
  "spec_constants (matmul_def out_def c m k n) = Some [(100, uint m), (101, uint k), (102, uint n)]"
  by (simp add: spec_constants_def matmul_def_def)

lemma word32_wraps: "(4294967296 :: 32 word) = 0"
  by simp

text \<open>
  A table that holds the matmul kernel, here the first two words of a SPIR-V module, and
  the unbatched dot of the specification, \<open>[128, 64]\<close> by \<open>[64, 256]\<close>.
\<close>

lemma example_build:
  "buildMatMulExecutable
       [\<lparr>name = ''matmul.spv'', data = [3, 2, 35, 7, 0, 0, 1, 0], size_bytes = 8\<rparr>]
       \<lparr>operand0 = Ranked [128, 64], operand1 = Ranked [64, 256]\<rparr> empty_def
     = Inr (success, matmul_def empty_def [0x07230203, 0x00010000] 128 64 256)"
  by (simp add: buildMatMulExecutable_eq dim_as_uint32_Ranked copy_code_def word_of_bytes_def)

subsection \<open>The lookup result is not checked\<close>

text \<open>
  With a table that has no entry named \<open>matmul.spv\<close> the lookup returns the empty vector,
  and the assembler returns success with an empty \<open>code\<close> field.
\<close>

theorem buildMatMulExecutable_empty_lookup_counterexample:
  "readEmbeddedKernelCode
       [\<lparr>name = ''conv.spv'', data = [3, 2, 35, 7], size_bytes = 4\<rparr>] ''matmul.spv'' = Inr []
   \<and> buildMatMulExecutable
       [\<lparr>name = ''conv.spv'', data = [3, 2, 35, 7], size_bytes = 4\<rparr>]
       \<lparr>operand0 = Ranked [128, 64], operand1 = Ranked [64, 256]\<rparr> empty_def
     = Inr (success, matmul_def empty_def [] 128 64 256)
   \<and> code (matmul_def empty_def [] 128 64 256) = []"
  by (simp add: buildMatMulExecutable_eq dim_as_uint32_Ranked matmul_def_def)

text \<open>
  C1, as the code has it. \<^verbatim>\<open>buildMatMulExecutable\<close> does not look at what the lookup
  returned. When the lookup of \<open>matmul.spv\<close> returns the empty vector and both operand
  types are ranked with at least two dimensions, it returns success and the \<open>code\<close>
  field of the definition is empty. Whenever it returns, it returns success, the \<open>code\<close>
  field is exactly the lookup result, and the pipeline layout and the specialization
  info are present.
\<close>

theorem buildMatMulExecutable_code_is_lookup:
  "(readEmbeddedKernelCode fileToc ''matmul.spv'' = Inr []
      \<and> rank_ok (operand0 dotOp) \<and> rank_ok (operand1 dotOp)
    \<longrightarrow> (\<exists>out_def'. buildMatMulExecutable fileToc dotOp out_def = Inr (success, out_def')
           \<and> code out_def' = []))
   \<and> (\<forall>r out_def'. buildMatMulExecutable fileToc dotOp out_def = Inr (r, out_def')
        \<longrightarrow> r = success
          \<and> readEmbeddedKernelCode fileToc ''matmul.spv'' = Inr (code out_def')
          \<and> pipeline_layout out_def' \<noteq> None
          \<and> specialization_info out_def' \<noteq> None)"
proof (intro conjI impI allI)
  assume a: "readEmbeddedKernelCode fileToc ''matmul.spv'' = Inr []
      \<and> rank_ok (operand0 dotOp) \<and> rank_ok (operand1 dotOp)"
  then obtain m k n where
    "buildMatMulExecutable fileToc dotOp out_def = Inr (success, matmul_def out_def [] m k n)"
    using buildMatMulExecutable_returns [of fileToc "[]" dotOp out_def] by blast
  moreover have "code (matmul_def out_def [] m k n) = []"
    by (simp add: matmul_def_def)
  ultimately show "\<exists>out_def'. buildMatMulExecutable fileToc dotOp out_def = Inr (success, out_def')
           \<and> code out_def' = []" by blast
next
  fix r out_def'
  assume b: "buildMatMulExecutable fileToc dotOp out_def = Inr (r, out_def')"
  from b show "r = success" by (elim buildMatMulExecutable_InrE)
  from b show "readEmbeddedKernelCode fileToc ''matmul.spv'' = Inr (code out_def')"
    by (elim buildMatMulExecutable_InrE) (simp add: matmul_def_def)
  from b show "pipeline_layout out_def' \<noteq> None"
    by (elim buildMatMulExecutable_InrE) (simp add: matmul_def_def)
  from b show "specialization_info out_def' \<noteq> None"
    by (elim buildMatMulExecutable_InrE) (simp add: matmul_def_def)
qed

theorem buildMatMulExecutable_code_is_lookup_witness:
  "readEmbeddedKernelCode
       [\<lparr>name = ''conv.spv'', data = [3, 2, 35, 7], size_bytes = 4\<rparr>] ''matmul.spv'' = Inr []
   \<and> rank_ok (Ranked [8, 32, 16]) \<and> rank_ok (Ranked [8, 16, 48])
   \<and> buildMatMulExecutable
       [\<lparr>name = ''conv.spv'', data = [3, 2, 35, 7], size_bytes = 4\<rparr>]
       \<lparr>operand0 = Ranked [8, 32, 16], operand1 = Ranked [8, 16, 48]\<rparr> empty_def
     = Inr (success, matmul_def empty_def [] 32 16 48)
   \<and> code (matmul_def empty_def [] 32 16 48) = []
   \<and> pipeline_layout (matmul_def empty_def [] 32 16 48) \<noteq> None
   \<and> specialization_info (matmul_def empty_def [] 32 16 48) \<noteq> None"
  using buildMatMulExecutable_code_is_lookup
    [of "[\<lparr>name = ''conv.spv'', data = [3, 2, 35, 7], size_bytes = 4\<rparr>]"
        "\<lparr>operand0 = Ranked [8, 32, 16], operand1 = Ranked [8, 16, 48]\<rparr>" empty_def]
  by (simp add: buildMatMulExecutable_eq dim_as_uint32_Ranked matmul_def_def)

subsection \<open>Dynamic dimensions are not checked\<close>

text \<open>
  A dot whose first operand has a dynamic dimension is assembled with success; the
  dynamic extent becomes the constant 4294967295.
\<close>

theorem buildMatMulExecutable_dynamic_counterexample:
  "has_dynamic_dim (Ranked [kDynamicSize, 64])
   \<and> buildMatMulExecutable
       [\<lparr>name = ''matmul.spv'', data = [3, 2, 35, 7, 0, 0, 1, 0], size_bytes = 8\<rparr>]
       \<lparr>operand0 = Ranked [kDynamicSize, 64], operand1 = Ranked [64, 256]\<rparr> empty_def
     = Inr (success, matmul_def empty_def [0x07230203, 0x00010000] 4294967295 64 256)"
  by (simp add: buildMatMulExecutable_eq dim_as_uint32_Ranked copy_code_def word_of_bytes_def
      ucast_kDynamicSize)

text \<open>
  C2, as the code has it. For every dot operation whose operand types are ranked with at
  least two dimensions and of which some dimension is dynamic, and every table whose
  copies stay in bounds, \<^verbatim>\<open>buildMatMulExecutable\<close> reports no failure: it returns success,
  with a definition that has its pipeline layout and its three specialization
  constants 100, 101 and 102.
\<close>

theorem buildMatMulExecutable_dynamic_success:
  assumes "has_dynamic_dim (operand0 dotOp) \<or> has_dynamic_dim (operand1 dotOp)"
    and "rank_ok (operand0 dotOp)" and "rank_ok (operand1 dotOp)"
    and "\<forall>e\<in>set fileToc. entry_in_bounds e"
  shows "\<exists>out_def'. buildMatMulExecutable fileToc dotOp out_def = Inr (success, out_def')
           \<and> pipeline_layout out_def' \<noteq> None
           \<and> (\<exists>vm vk vn. spec_constants out_def' = Some [(100, vm), (101, vk), (102, vn)])"
proof -
  obtain c where "readEmbeddedKernelCode fileToc ''matmul.spv'' = Inr c"
    using readEmbeddedKernelCode_returns [OF assms(4)] by blast
  from buildMatMulExecutable_returns [OF this assms(2,3)]
  obtain m k n where
    "buildMatMulExecutable fileToc dotOp out_def = Inr (success, matmul_def out_def c m k n)"
    by blast
  moreover have "pipeline_layout (matmul_def out_def c m k n) \<noteq> None"
    by (simp add: matmul_def_def)
  ultimately show ?thesis
    using spec_constants_matmul_def [of out_def c m k n] by blast
qed

theorem buildMatMulExecutable_dynamic_success_witness:
  "(has_dynamic_dim (Ranked [8, kDynamicSize, 16]) \<or> has_dynamic_dim (Ranked [8, 16, 48]))
   \<and> rank_ok (Ranked [8, kDynamicSize, 16]) \<and> rank_ok (Ranked [8, 16, 48])
   \<and> entry_in_bounds \<lparr>name = ''matmul.spv'', data = [3, 2, 35, 7, 0, 0, 1, 0], size_bytes = 8\<rparr>
   \<and> (\<exists>out_def'. buildMatMulExecutable
          [\<lparr>name = ''matmul.spv'', data = [3, 2, 35, 7, 0, 0, 1, 0], size_bytes = 8\<rparr>]
          \<lparr>operand0 = Ranked [8, kDynamicSize, 16], operand1 = Ranked [8, 16, 48]\<rparr> empty_def
        = Inr (success, out_def')
        \<and> pipeline_layout out_def' \<noteq> None
        \<and> (\<exists>vm vk vn. spec_constants out_def' = Some [(100, vm), (101, vk), (102, vn)]))"
  using buildMatMulExecutable_dynamic_success
    [of "\<lparr>operand0 = Ranked [8, kDynamicSize, 16], operand1 = Ranked [8, 16, 48]\<rparr>"
        "[\<lparr>name = ''matmul.spv'', data = [3, 2, 35, 7, 0, 0, 1, 0], size_bytes = 8\<rparr>]" empty_def]
  by (simp add: entry_in_bounds_def)

subsection \<open>The fixed part of the definition\<close>

text \<open>
  C4. For every dot operation that \<^verbatim>\<open>buildMatMulExecutable\<close> assembles with success,
  whatever the extents, the definition has the tag \<open>__matmul__\<close>, the single entry point
  \<open>main\<close>, and a pipeline layout with buffer binding set 0 and exactly one descriptor set
  layout, whose bindings are exactly three, with the indices 0, 1, 2 in this order, each
  with descriptor count 1, descriptor type 7 and stage flags 0x20.
\<close>

theorem buildMatMulExecutable_fixed_fields:
  assumes "buildMatMulExecutable fileToc dotOp out_def = Inr (success, out_def')"
  shows "tag out_def' = ''__matmul__''
       \<and> entry_points out_def' = [''main'']
       \<and> pipeline_layout out_def' =
           Some \<lparr>buffer_binding_set = 0, descriptor_set_layouts =
             [\<lparr>bindings =
                [\<lparr>binding = 0, descriptor_count = 1, descriptor_type = 7, stage_flags = 0x20\<rparr>,
                 \<lparr>binding = 1, descriptor_count = 1, descriptor_type = 7, stage_flags = 0x20\<rparr>,
                 \<lparr>binding = 2, descriptor_count = 1, descriptor_type = 7, stage_flags = 0x20\<rparr>]\<rparr>]\<rparr>"
  using assms
  by (elim buildMatMulExecutable_InrE) (simp add: matmul_def_def storage_buffer_binding_def)

theorem buildMatMulExecutable_fixed_fields_witness:
  "buildMatMulExecutable
       [\<lparr>name = ''matmul.spv'', data = [3, 2, 35, 7, 0, 0, 1, 0], size_bytes = 8\<rparr>]
       \<lparr>operand0 = Ranked [128, 64], operand1 = Ranked [64, 256]\<rparr> empty_def
     = Inr (success, matmul_def empty_def [0x07230203, 0x00010000] 128 64 256)
   \<and> tag (matmul_def empty_def [0x07230203, 0x00010000] 128 64 256) = ''__matmul__''
   \<and> entry_points (matmul_def empty_def [0x07230203, 0x00010000] 128 64 256) = [''main'']
   \<and> pipeline_layout (matmul_def empty_def [0x07230203, 0x00010000] 128 64 256) =
           Some \<lparr>buffer_binding_set = 0, descriptor_set_layouts =
             [\<lparr>bindings =
                [\<lparr>binding = 0, descriptor_count = 1, descriptor_type = 7, stage_flags = 0x20\<rparr>,
                 \<lparr>binding = 1, descriptor_count = 1, descriptor_type = 7, stage_flags = 0x20\<rparr>,
                 \<lparr>binding = 2, descriptor_count = 1, descriptor_type = 7, stage_flags = 0x20\<rparr>]\<rparr>]\<rparr>"
  using example_build buildMatMulExecutable_fixed_fields [OF example_build]
  by simp

subsection \<open>The specialization constants\<close>

lemma example_build_batched:
  "buildMatMulExecutable
       [\<lparr>name = ''matmul.spv'', data = [3, 2, 35, 7, 0, 0, 1, 0], size_bytes = 8\<rparr>]
       \<lparr>operand0 = Ranked [8, 32, 16], operand1 = Ranked [8, 16, 48]\<rparr> empty_def
     = Inr (success, matmul_def empty_def [0x07230203, 0x00010000] 32 16 48)"
  by (simp add: buildMatMulExecutable_eq dim_as_uint32_Ranked copy_code_def word_of_bytes_def)

lemma example_build_dynamic:
  "buildMatMulExecutable
       [\<lparr>name = ''matmul.spv'', data = [3, 2, 35, 7, 0, 0, 1, 0], size_bytes = 8\<rparr>]
       \<lparr>operand0 = Ranked [128, 64], operand1 = Ranked [64, kDynamicSize]\<rparr> empty_def
     = Inr (success, matmul_def empty_def [0x07230203, 0x00010000] 128 64 4294967295)"
  by (simp add: buildMatMulExecutable_eq dim_as_uint32_Ranked copy_code_def word_of_bytes_def
      ucast_kDynamicSize)

text \<open>
  A static shape with an extent of \<open>2 ^ 32\<close>: the dot is assembled with success, and the
  constant M is 0, not the extent.
\<close>

theorem specialization_constants_exact_counterexample:
  "\<not> has_dynamic_dim (Ranked [4294967296, 64]) \<and> \<not> has_dynamic_dim (Ranked [64, 256])
   \<and> buildMatMulExecutable
       [\<lparr>name = ''matmul.spv'', data = [3, 2, 35, 7, 0, 0, 1, 0], size_bytes = 8\<rparr>]
       \<lparr>operand0 = Ranked [4294967296, 64], operand1 = Ranked [64, 256]\<rparr> empty_def
     = Inr (success, matmul_def empty_def [0x07230203, 0x00010000] 0 64 256)
   \<and> spec_constants (matmul_def empty_def [0x07230203, 0x00010000] 0 64 256)
     = Some [(100, 0), (101, 64), (102, 256)]
   \<and> spec_constants (matmul_def empty_def [0x07230203, 0x00010000] 0 64 256)
     \<noteq> Some [(100, sint (4294967296 :: 64 word)), (101, sint (64 :: 64 word)),
             (102, sint (256 :: 64 word))]"
  by (simp add: buildMatMulExecutable_eq dim_as_uint32_Ranked copy_code_def word_of_bytes_def
      spec_constants_matmul_def kDynamicSize_def word32_wraps)

text \<open>
  C3, as the code has it. For every dot operation assembled with success: if operand 0
  has the shape \<open>[m, k]\<close> and operand 1 a shape \<open>[k', n]\<close>, or operand 0 has the shape
  \<open>[b, m, k]\<close> and operand 1 a shape \<open>[b', k', n]\<close>, then the specialization constants are
  exactly three, with the ids 100, 101, 102 in this order, and their values are \<open>m\<close>, \<open>k\<close>
  and \<open>n\<close> reduced modulo \<open>2 ^ 32\<close>; the batch extent is not among them. When \<open>m\<close>, \<open>k\<close>
  and \<open>n\<close> are below \<open>2 ^ 32\<close> the values are \<open>m\<close>, \<open>k\<close> and \<open>n\<close> themselves.
\<close>

theorem specialization_constants_of_shape:
  assumes "buildMatMulExecutable fileToc dotOp out_def = Inr (success, out_def')"
    and "(operand0 dotOp = Ranked [m, k] \<and> operand1 dotOp = Ranked [k', n])
       \<or> (operand0 dotOp = Ranked [b, m, k] \<and> operand1 dotOp = Ranked [b', k', n])"
  shows "spec_constants out_def' =
           Some [(100, sint m mod 2 ^ 32), (101, sint k mod 2 ^ 32), (102, sint n mod 2 ^ 32)]
       \<and> (0 \<le> sint m \<and> sint m < 2 ^ 32 \<and> 0 \<le> sint k \<and> sint k < 2 ^ 32
            \<and> 0 \<le> sint n \<and> sint n < 2 ^ 32
          \<longrightarrow> spec_constants out_def' = Some [(100, sint m), (101, sint k), (102, sint n)])"
proof -
  from assms(1) obtain c vm vk vn where
    m: "dim_as_uint32 (operand0 dotOp) 1 0 = Inr vm" and
    k: "dim_as_uint32 (operand0 dotOp) 2 1 = Inr vk" and
    n: "dim_as_uint32 (operand1 dotOp) 2 1 = Inr vn" and
    d: "out_def' = matmul_def out_def c vm vk vn"
    by (elim buildMatMulExecutable_InrE) blast
  from assms(2) m k n have "vm = ucast m \<and> vk = ucast k \<and> vn = ucast n"
    by (auto simp: dim_as_uint32_Ranked)
  with d have "spec_constants out_def' =
           Some [(100, sint m mod 2 ^ 32), (101, sint k mod 2 ^ 32), (102, sint n mod 2 ^ 32)]"
    by (simp add: spec_constants_matmul_def uint_ucast_64_32)
  then show ?thesis by simp
qed

theorem specialization_constants_of_shape_witness:
  "buildMatMulExecutable
       [\<lparr>name = ''matmul.spv'', data = [3, 2, 35, 7, 0, 0, 1, 0], size_bytes = 8\<rparr>]
       \<lparr>operand0 = Ranked [8, 32, 16], operand1 = Ranked [8, 16, 48]\<rparr> empty_def
     = Inr (success, matmul_def empty_def [0x07230203, 0x00010000] 32 16 48)
   \<and> (0 :: int) \<le> sint (32 :: 64 word) \<and> sint (32 :: 64 word) < 2 ^ 32
   \<and> (0 :: int) \<le> sint (16 :: 64 word) \<and> sint (16 :: 64 word) < 2 ^ 32
   \<and> (0 :: int) \<le> sint (48 :: 64 word) \<and> sint (48 :: 64 word) < 2 ^ 32
   \<and> spec_constants (matmul_def empty_def [0x07230203, 0x00010000] 32 16 48)
     = Some [(100, 32), (101, 16), (102, 48)]"
  using example_build_batched
    specialization_constants_of_shape [OF example_build_batched, of 32 16 16 48 8 8]
  by simp

text \<open>
  C9. Whenever \<^verbatim>\<open>buildMatMulExecutable\<close> returns, it returns success, and each of the
  three specialization constants is the extent it was read from (index 1 or 2 of the
  shape at rank 3, index 0 or 1 at any other rank) as an unsigned 32-bit number, that
  is the \<^verbatim>\<open>int64_t\<close> extent modulo \<open>2 ^ 32\<close>. An extent that is the dynamic sentinel
  \<open>-1\<close> is emitted as 4294967295; it is no failure.
\<close>

theorem specialization_values_mod_2_32:
  assumes "buildMatMulExecutable fileToc dotOp out_def = Inr (r, out_def')"
    and "operand0 dotOp = Ranked s0" and "operand1 dotOp = Ranked s1"
    and "dm = s0 ! (if length s0 = 3 then 1 else 0)"
    and "dk = s0 ! (if length s0 = 3 then 2 else 1)"
    and "dn = s1 ! (if length s1 = 3 then 2 else 1)"
  shows "r = success \<and> 2 \<le> length s0 \<and> 2 \<le> length s1
       \<and> (\<exists>vm vk vn. spec_constants out_def' = Some [(100, vm), (101, vk), (102, vn)]
            \<and> vm = sint dm mod 2 ^ 32 \<and> vk = sint dk mod 2 ^ 32 \<and> vn = sint dn mod 2 ^ 32
            \<and> (dm = kDynamicSize \<longrightarrow> vm = 4294967295)
            \<and> (dk = kDynamicSize \<longrightarrow> vk = 4294967295)
            \<and> (dn = kDynamicSize \<longrightarrow> vn = 4294967295))"
proof -
  from assms(1) obtain c vm vk vn where
    m: "dim_as_uint32 (operand0 dotOp) 1 0 = Inr vm" and
    k: "dim_as_uint32 (operand0 dotOp) 2 1 = Inr vk" and
    n: "dim_as_uint32 (operand1 dotOp) 2 1 = Inr vn" and
    r: "r = success" and
    d: "out_def' = matmul_def out_def c vm vk vn"
    by (elim buildMatMulExecutable_InrE) blast
  from m k assms(2) have l0: "2 \<le> length s0"
    by (auto simp: dim_as_uint32_Ranked split: if_splits)
  from n assms(3) have l1: "2 \<le> length s1"
    by (auto simp: dim_as_uint32_Ranked split: if_splits)
  from m k n assms(2-6) have v: "vm = ucast dm" "vk = ucast dk" "vn = ucast dn"
    by (auto simp: dim_as_uint32_Ranked split: if_splits)
  have dyn: "sint kDynamicSize mod 2 ^ 32 = 4294967295"
    by (simp add: kDynamicSize_def)
  from d v have "spec_constants out_def' =
      Some [(100, sint dm mod 2 ^ 32), (101, sint dk mod 2 ^ 32), (102, sint dn mod 2 ^ 32)]"
    by (simp add: spec_constants_matmul_def uint_ucast_64_32)
  with r l0 l1 dyn show ?thesis by auto
qed

theorem specialization_values_mod_2_32_witness:
  "buildMatMulExecutable
       [\<lparr>name = ''matmul.spv'', data = [3, 2, 35, 7, 0, 0, 1, 0], size_bytes = 8\<rparr>]
       \<lparr>operand0 = Ranked [128, 64], operand1 = Ranked [64, kDynamicSize]\<rparr> empty_def
     = Inr (success, matmul_def empty_def [0x07230203, 0x00010000] 128 64 4294967295)
   \<and> spec_constants (matmul_def empty_def [0x07230203, 0x00010000] 128 64 4294967295)
     = Some [(100, 128), (101, 64), (102, 4294967295)]"
  using example_build_dynamic
    specialization_values_mod_2_32 [OF example_build_dynamic, of "[128, 64]" "[64, kDynamicSize]"
       128 64 kDynamicSize]
  by (simp add: spec_constants_matmul_def)

section \<open>The pattern matcher\<close>

lemma scan_ops_append:
  "scan_ops fileToc (xs @ ys) out_def ds =
     (case scan_ops fileToc xs out_def ds of
        Inr None \<Rightarrow> scan_ops fileToc ys out_def ds
      | r \<Rightarrow> r)"
  by (induction fileToc xs out_def ds rule: scan_ops.induct)
     (auto split: sum.splits option.splits)

lemma scan_blocks_concat:
  "scan_blocks fileToc blocks out_def ds = scan_ops fileToc (concat blocks) out_def ds"
  by (induction blocks) (auto simp: scan_ops_append split: sum.splits option.splits)

lemma scan_funcs_concat:
  "scan_funcs fileToc funcOps out_def ds = scan_ops fileToc (concat (concat funcOps)) out_def ds"
  by (induction funcOps)
     (auto simp: scan_ops_append scan_blocks_concat split: sum.splits option.splits)

lemma tryEmbeddedKernelRewrite_flat:
  "tryEmbeddedKernelRewrite fileToc module out_def ds =
     (case scan_ops fileToc (concat (concat module)) out_def ds of
        Inl f \<Rightarrow> Inl f
      | Inr (Some r) \<Rightarrow> Inr r
      | Inr None \<Rightarrow> Inr \<lparr>returned = False, def = out_def, diags = ds\<rparr>)"
  by (simp add: tryEmbeddedKernelRewrite_def scan_funcs_concat)

lemma scan_ops_skip_others:
  "\<forall>op\<in>set pre. op = OtherOp \<Longrightarrow>
     scan_ops fileToc (pre @ rest) out_def ds = scan_ops fileToc rest out_def ds"
  by (induction pre) auto

lemma scan_ops_Some_cases:
  assumes "scan_ops fileToc ops out_def ds = Inr (Some rw)"
  shows "rw = \<lparr>returned = False, def = out_def, diags = ds @ [conv_diagnostic]\<rparr>
       \<or> (\<exists>dotOp out_def'. buildMatMulExecutable fileToc dotOp out_def = Inr (success, out_def')
            \<and> rw = \<lparr>returned = True, def = out_def', diags = ds\<rparr>)"
  using assms
proof (induction fileToc ops out_def ds rule: scan_ops.induct)
  case (3 fileToc dotOp ops out_def ds)
  then obtain r out_def' where
    b: "buildMatMulExecutable fileToc dotOp out_def = Inr (r, out_def')"
    by (cases "buildMatMulExecutable fileToc dotOp out_def") auto
  then have r: "r = success" by (elim buildMatMulExecutable_InrE)
  with b "3.prems" have "rw = \<lparr>returned = True, def = out_def', diags = ds\<rparr>"
    by (simp add: failed_def)
  with b r show ?case by blast
qed (auto simp: conv_diagnostic_def)

lemma tryEmbeddedKernelRewrite_cases:
  assumes "tryEmbeddedKernelRewrite fileToc module out_def ds = Inr rw"
  shows "rw = \<lparr>returned = False, def = out_def, diags = ds\<rparr>
       \<or> rw = \<lparr>returned = False, def = out_def, diags = ds @ [conv_diagnostic]\<rparr>
       \<or> (\<exists>dotOp out_def'. buildMatMulExecutable fileToc dotOp out_def = Inr (success, out_def')
            \<and> rw = \<lparr>returned = True, def = out_def', diags = ds\<rparr>)"
  using assms scan_ops_Some_cases [of fileToc "concat (concat module)" out_def ds]
  by (auto simp: tryEmbeddedKernelRewrite_flat split: sum.splits option.splits)

subsection \<open>A convolution stops the scan\<close>

text \<open>
  C5. If the first operation of the unit, in the order of the scan (function by function,
  block by block, operation by operation), that is a convolution or a dot is a
  convolution, then \<^verbatim>\<open>tryEmbeddedKernelRewrite\<close> returns false, adds exactly one
  diagnostic to those of the executable, and leaves the definition as it was, whatever
  comes after the convolution: a dot after it is not assembled.
\<close>

theorem tryEmbeddedKernelRewrite_conv_first:
  assumes "concat (concat module) = pre @ ConvOp # post"
    and "\<forall>op\<in>set pre. op = OtherOp"
  shows "tryEmbeddedKernelRewrite fileToc module out_def ds =
           Inr \<lparr>returned = False, def = out_def,
                 diags = ds @ [OpError ''Conv not yet implemented'']\<rparr>"
  using assms by (simp add: tryEmbeddedKernelRewrite_flat scan_ops_skip_others)

theorem tryEmbeddedKernelRewrite_conv_first_witness:
  "concat (concat
      [[[OtherOp], [OtherOp, ConvOp,
                    DotOp \<lparr>operand0 = Ranked [128, 64], operand1 = Ranked [64, 256]\<rparr>]],
       [[DotOp \<lparr>operand0 = Unranked, operand1 = Unranked\<rparr>]]])
     = [OtherOp, OtherOp] @ ConvOp #
         [DotOp \<lparr>operand0 = Ranked [128, 64], operand1 = Ranked [64, 256]\<rparr>,
          DotOp \<lparr>operand0 = Unranked, operand1 = Unranked\<rparr>]
   \<and> tryEmbeddedKernelRewrite
        [\<lparr>name = ''matmul.spv'', data = [3, 2, 35, 7, 0, 0, 1, 0], size_bytes = 8\<rparr>]
        [[[OtherOp], [OtherOp, ConvOp,
                      DotOp \<lparr>operand0 = Ranked [128, 64], operand1 = Ranked [64, 256]\<rparr>]],
         [[DotOp \<lparr>operand0 = Unranked, operand1 = Unranked\<rparr>]]]
        empty_def []
     = Inr \<lparr>returned = False, def = empty_def,
             diags = [OpError ''Conv not yet implemented'']\<rparr>"
  using tryEmbeddedKernelRewrite_conv_first
    [of "[[[OtherOp], [OtherOp, ConvOp,
                       DotOp \<lparr>operand0 = Ranked [128, 64], operand1 = Ranked [64, 256]\<rparr>]],
          [[DotOp \<lparr>operand0 = Unranked, operand1 = Unranked\<rparr>]]]"
        "[OtherOp, OtherOp]"
        "[DotOp \<lparr>operand0 = Ranked [128, 64], operand1 = Ranked [64, 256]\<rparr>,
          DotOp \<lparr>operand0 = Unranked, operand1 = Unranked\<rparr>]"
        "[\<lparr>name = ''matmul.spv'', data = [3, 2, 35, 7, 0, 0, 1, 0], size_bytes = 8\<rparr>]"
        empty_def "[]"]
  by simp

subsection \<open>No recognized operation\<close>

text \<open>
  C6. For every unit in which no operation of any block of any function is a convolution
  or a dot, \<^verbatim>\<open>tryEmbeddedKernelRewrite\<close> returns false, emits no diagnostic and leaves
  the definition as it was.
\<close>

theorem tryEmbeddedKernelRewrite_no_match:
  assumes "\<forall>funcOp\<in>set module. \<forall>block\<in>set funcOp. \<forall>op\<in>set block. op = OtherOp"
  shows "tryEmbeddedKernelRewrite fileToc module out_def ds =
           Inr \<lparr>returned = False, def = out_def, diags = ds\<rparr>"
proof -
  from assms have "\<forall>op\<in>set (concat (concat module)). op = OtherOp"
    by auto
  then have "scan_ops fileToc (concat (concat module) @ []) out_def ds
           = scan_ops fileToc [] out_def ds"
    by (rule scan_ops_skip_others)
  then show ?thesis by (simp add: tryEmbeddedKernelRewrite_flat)
qed

theorem tryEmbeddedKernelRewrite_no_match_witness:
  "tryEmbeddedKernelRewrite
        [\<lparr>name = ''matmul.spv'', data = [3, 2, 35, 7, 0, 0, 1, 0], size_bytes = 8\<rparr>]
        [[[OtherOp], [OtherOp, OtherOp]], [[], [OtherOp]]] empty_def []
     = Inr \<lparr>returned = False, def = empty_def, diags = []\<rparr>"
  using tryEmbeddedKernelRewrite_no_match
    [of "[[[OtherOp], [OtherOp, OtherOp]], [[], [OtherOp]]]"
        "[\<lparr>name = ''matmul.spv'', data = [3, 2, 35, 7, 0, 0, 1, 0], size_bytes = 8\<rparr>]"
        empty_def "[]"]
  by simp

subsection \<open>The assembler has no failure path\<close>

text \<open>
  C8. \<^verbatim>\<open>buildMatMulExecutable\<close> has no check that can fail: whenever it returns, the
  result is success and \<^verbatim>\<open>failed\<close> is false of it; and it does return, with success,
  on every dot operation whose operand types are ranked with at least two dimensions,
  for every table whose copies stay in bounds. So the branch of
  \<^verbatim>\<open>tryEmbeddedKernelRewrite\<close> that emits \<open>Failed to splat in the matmul kernel\<close> is never
  taken: a call that returns has emitted no diagnostic or the one of the convolution.
\<close>

theorem buildMatMulExecutable_never_fails:
  "(\<forall>r out_def'. buildMatMulExecutable fileToc dotOp out_def = Inr (r, out_def')
       \<longrightarrow> r = success \<and> \<not> failed r)
   \<and> ((\<forall>e\<in>set fileToc. entry_in_bounds e) \<and> rank_ok (operand0 dotOp) \<and> rank_ok (operand1 dotOp)
        \<longrightarrow> (\<exists>out_def'. buildMatMulExecutable fileToc dotOp out_def = Inr (success, out_def')))
   \<and> (\<forall>rw. tryEmbeddedKernelRewrite fileToc module out_def ds = Inr rw
        \<longrightarrow> (diags rw = ds \<or> diags rw = ds @ [OpError ''Conv not yet implemented''])
          \<and> diags rw \<noteq> ds @ [OpError ''Failed to splat in the matmul kernel''])"
proof (intro conjI allI impI)
  fix r out_def'
  assume b: "buildMatMulExecutable fileToc dotOp out_def = Inr (r, out_def')"
  then show "r = success" by (elim buildMatMulExecutable_InrE)
  then show "\<not> failed r" by (simp add: failed_def)
next
  assume a: "(\<forall>e\<in>set fileToc. entry_in_bounds e)
      \<and> rank_ok (operand0 dotOp) \<and> rank_ok (operand1 dotOp)"
  then obtain c where "readEmbeddedKernelCode fileToc ''matmul.spv'' = Inr c"
    using readEmbeddedKernelCode_returns [of fileToc "''matmul.spv''"] by blast
  with a show "\<exists>out_def'. buildMatMulExecutable fileToc dotOp out_def = Inr (success, out_def')"
    using buildMatMulExecutable_returns [of fileToc c dotOp out_def] by blast
next
  fix rw
  assume "tryEmbeddedKernelRewrite fileToc module out_def ds = Inr rw"
  from tryEmbeddedKernelRewrite_cases [OF this]
  show c: "diags rw = ds \<or> diags rw = ds @ [OpError ''Conv not yet implemented'']"
    by (auto simp: conv_diagnostic_def)
  then show "diags rw \<noteq> ds @ [OpError ''Failed to splat in the matmul kernel'']"
    by auto
qed

theorem buildMatMulExecutable_never_fails_witness:
  "buildMatMulExecutable
       [\<lparr>name = ''matmul.spv'', data = [3, 2, 35, 7, 0, 0, 1, 0], size_bytes = 8\<rparr>]
       \<lparr>operand0 = Ranked [128, 64], operand1 = Ranked [64, 256]\<rparr> empty_def
     = Inr (success, matmul_def empty_def [0x07230203, 0x00010000] 128 64 256)
   \<and> \<not> failed success
   \<and> entry_in_bounds \<lparr>name = ''matmul.spv'', data = [3, 2, 35, 7, 0, 0, 1, 0], size_bytes = 8\<rparr>
   \<and> rank_ok (Ranked [128, 64]) \<and> rank_ok (Ranked [64, 256])
   \<and> tryEmbeddedKernelRewrite
       [\<lparr>name = ''matmul.spv'', data = [3, 2, 35, 7, 0, 0, 1, 0], size_bytes = 8\<rparr>]
       [[[OtherOp, DotOp \<lparr>operand0 = Ranked [128, 64], operand1 = Ranked [64, 256]\<rparr>, ConvOp]]]
       empty_def []
     = Inr \<lparr>returned = True,
             def = matmul_def empty_def [0x07230203, 0x00010000] 128 64 256, diags = []\<rparr>"
  using example_build
    buildMatMulExecutable_never_fails
      [of "[\<lparr>name = ''matmul.spv'', data = [3, 2, 35, 7, 0, 0, 1, 0], size_bytes = 8\<rparr>]"
          "\<lparr>operand0 = Ranked [128, 64], operand1 = Ranked [64, 256]\<rparr>" empty_def
          "[[[OtherOp, DotOp \<lparr>operand0 = Ranked [128, 64], operand1 = Ranked [64, 256]\<rparr>, ConvOp]]]"
          "[]"]
  by (simp add: entry_in_bounds_def tryEmbeddedKernelRewrite_def failed_def)

subsection \<open>The definition is untouched when the result is false\<close>

text \<open>
  C10. Whenever \<^verbatim>\<open>tryEmbeddedKernelRewrite\<close> returns false, the record behind
  \<^verbatim>\<open>out_def\<close> is what it was before the call: no field of it has been written.
\<close>

theorem tryEmbeddedKernelRewrite_false_frame:
  assumes "tryEmbeddedKernelRewrite fileToc module out_def ds = Inr rw"
    and "\<not> returned rw"
  shows "def rw = out_def"
  using tryEmbeddedKernelRewrite_cases [OF assms(1)] assms(2) by auto

lemma example_conv_rewrite:
  "tryEmbeddedKernelRewrite
       [\<lparr>name = ''matmul.spv'', data = [3, 2, 35, 7, 0, 0, 1, 0], size_bytes = 8\<rparr>]
       [[[OtherOp, ConvOp]],
        [[DotOp \<lparr>operand0 = Ranked [128, 64], operand1 = Ranked [64, 256]\<rparr>]]]
       (matmul_def empty_def [] 1 2 3) []
     = Inr \<lparr>returned = False, def = matmul_def empty_def [] 1 2 3,
             diags = [OpError ''Conv not yet implemented'']\<rparr>"
  by (simp add: tryEmbeddedKernelRewrite_def)

theorem tryEmbeddedKernelRewrite_false_frame_witness:
  "tryEmbeddedKernelRewrite
       [\<lparr>name = ''matmul.spv'', data = [3, 2, 35, 7, 0, 0, 1, 0], size_bytes = 8\<rparr>]
       [[[OtherOp, ConvOp]],
        [[DotOp \<lparr>operand0 = Ranked [128, 64], operand1 = Ranked [64, 256]\<rparr>]]]
       (matmul_def empty_def [] 1 2 3) []
     = Inr \<lparr>returned = False, def = matmul_def empty_def [] 1 2 3,
             diags = [OpError ''Conv not yet implemented'']\<rparr>
   \<and> \<not> returned \<lparr>returned = False, def = matmul_def empty_def [] 1 2 3,
                    diags = [OpError ''Conv not yet implemented'']\<rparr>
   \<and> def \<lparr>returned = False, def = matmul_def empty_def [] 1 2 3,
            diags = [OpError ''Conv not yet implemented'']\<rparr>
     = matmul_def empty_def [] 1 2 3"
  using example_conv_rewrite tryEmbeddedKernelRewrite_false_frame [OF example_conv_rewrite]
  by simp

end
